theory Spec2Isabelle
  imports Complex_Main "HOL-Library.Word"
begin

section \<open>Machine types and errors\<close>

type_synonym byte = "8 word"
type_synonym uint32 = "32 word"
type_synonym uint64 = "64 word"
type_synonym uuid = "128 word"

text \<open>
  Every way in which the modelled code stops early.  The first group are the exceptions
  the pgpointcloud writer and the helpers it calls throw; \<open>heap_overrun\<close> stands for a
  \<^verbatim>\<open>memcpy\<close> that leaves its array (undefined behaviour in C++); the last two are the
  streaming errors of the iterator protocol.
\<close>

datatype error =
    MissingOptionError string
  | NotFoundError string
  | no_connection_string
  | unable_to_connect string string
  | requested_pcid_does_not_exist uint32
  | heap_overrun
  | ReadError
  | WriteError

section \<open>Dimension and Schema\<close>

text \<open>
  Modelled from the spec: the classes Dimension and Schema are declared in headers that
  are not among the sources.  A dimension is a field name with a scalar data type, the
  mutable numeric metadata, the ignored flag, the parent relation and the two layout
  attributes (ordinal position and byte offset).  The byte size is derived from the data
  type: signed and unsigned integers of 8 to 64 bits and the two float types.
\<close>

datatype DataType =
  Int8 | Uint8 | Int16 | Uint16 | Int32 | Uint32 | Int64 | Uint64 | Float | Double

fun getDataTypeSize :: "DataType \<Rightarrow> nat" where
  "getDataTypeSize Int8 = 1"
| "getDataTypeSize Uint8 = 1"
| "getDataTypeSize Int16 = 2"
| "getDataTypeSize Uint16 = 2"
| "getDataTypeSize Int32 = 4"
| "getDataTypeSize Uint32 = 4"
| "getDataTypeSize Int64 = 8"
| "getDataTypeSize Uint64 = 8"
| "getDataTypeSize Float = 4"
| "getDataTypeSize Double = 8"

record Dimension =
  m_name :: string
  m_dataType :: DataType
  m_description :: string
  m_numericScale :: rat
  m_numericOffset :: rat
  m_min :: rat
  m_max :: rat
  m_precise :: bool
  m_ignored :: bool
  m_parent :: uuid
  m_position :: uint32
  m_byteOffset :: nat

definition isIgnored :: "Dimension \<Rightarrow> bool" where
  "isIgnored d = m_ignored d"

definition getByteSize :: "Dimension \<Rightarrow> nat" where
  "getByteSize d = getDataTypeSize (m_dataType d)"

definition setPosition :: "uint32 \<Rightarrow> Dimension \<Rightarrow> Dimension" where
  "setPosition p d = d\<lparr>m_position := p\<rparr>"

definition setParent :: "uuid \<Rightarrow> Dimension \<Rightarrow> Dimension" where
  "setParent u d = d\<lparr>m_parent := u\<rparr>"

definition nil_uuid :: uuid where
  "nil_uuid = 0"

text \<open>A schema is its dimensions in index order (\<^verbatim>\<open>idx[0] .. idx[size-1]\<close>).\<close>

type_synonym Schema = "Dimension list"

text \<open>
  The bytes the non-ignored dimensions of a schema take, and the bytes of all of them.
\<close>

definition packedByteSize :: "Schema \<Rightarrow> nat" where
  "packedByteSize s = sum_list (map getByteSize (filter (\<lambda>d. \<not> isIgnored d) s))"

definition rowByteSize :: "Schema \<Rightarrow> nat" where
  "rowByteSize s = sum_list (map getByteSize s)"

text \<open>
  Modelled from the spec: \<^verbatim>\<open>Schema::appendDimension\<close> is not among the sources.  It
  is the step of the layout walk of section 4.2: the dimension gets the running size as
  its byte offset and joins the end of the schema, which adds its byte size to the
  running size.  The ordinal position is the one the caller has set.
\<close>

definition appendDimension :: "Schema \<Rightarrow> Dimension \<Rightarrow> Schema" where
  "appendDimension s d = s @ [d\<lparr>m_byteOffset := packedByteSize s\<rparr>]"

text \<open>
  Modelled from the spec: \<^verbatim>\<open>Schema::getDimension\<close> by name is not among the sources;
  it fails with NotFoundError when the schema has no such dimension.
\<close>

definition getDimension :: "Schema \<Rightarrow> string \<Rightarrow> error + Dimension" where
  "getDimension s n =
     (case find (\<lambda>d. m_name d = n) s of
        None \<Rightarrow> Inl (NotFoundError n)
      | Some d \<Rightarrow> Inr d)"

section \<open>Packing a schema\<close>

text \<open>
  \<^verbatim>\<open>Writer::PackSchema\<close>: the loop over \<^verbatim>\<open>idx\<close> with the 32-bit counter
  \<^verbatim>\<open>position\<close> and the schema \<^verbatim>\<open>clean_schema\<close> under construction.
\<close>

fun PackSchema_loop :: "Dimension list \<Rightarrow> uint32 \<Rightarrow> Schema \<Rightarrow> Schema" where
  "PackSchema_loop [] pos clean_schema = clean_schema"
| "PackSchema_loop (x # idx) pos clean_schema =
     (if \<not> isIgnored x
      then let d = setParent nil_uuid (setPosition pos x)
           in PackSchema_loop idx (pos + 1) (appendDimension clean_schema d)
      else PackSchema_loop idx pos clean_schema)"

definition PackSchema :: "Schema \<Rightarrow> Schema" where
  "PackSchema schema = PackSchema_loop schema 0 []"

text \<open>
  The layout of a list of dimensions from a start position and a start offset: positions
  count up, offsets add up the byte sizes, the parent is wiped.  It serves to state what
  the loop above computes.
\<close>

fun layout_from :: "Dimension list \<Rightarrow> uint32 \<Rightarrow> nat \<Rightarrow> Dimension list" where
  "layout_from [] p off = []"
| "layout_from (d # ds) p off =
     d\<lparr>m_parent := nil_uuid, m_position := p, m_byteOffset := off\<rparr>
       # layout_from ds (p + 1) (off + getByteSize d)"

section \<open>Point buffers and packing point data\<close>

text \<open>
  Modelled from the spec: class PointBuffer is not among the sources.  The point records
  are stored contiguously, one row per point, for a fixed capacity of points, of which
  the first \<^verbatim>\<open>getNumPoints()\<close> are filled; \<^verbatim>\<open>getData(i)\<close> points at row \<open>i\<close>.  A row
  holds the bytes of every dimension of the buffer's schema, in schema order: the packing
  loop below steps over each of them, ignored or not.
\<close>

record PointBuffer =
  m_schema :: Schema
  m_capacity :: uint32
  m_numPoints :: uint32
  m_data :: "byte list"

definition getSchema :: "PointBuffer \<Rightarrow> Schema" where
  "getSchema b = m_schema b"

definition getNumPoints :: "PointBuffer \<Rightarrow> uint32" where
  "getNumPoints b = m_numPoints b"

definition getData :: "PointBuffer \<Rightarrow> nat \<Rightarrow> byte list" where
  "getData b i = drop (i * rowByteSize (m_schema b)) (m_data b)"

text \<open>
  The array \<^verbatim>\<open>*point_data = new uint8_t[point_data_len]\<close> together with the pointer
  \<^verbatim>\<open>current_position\<close>.  The loop writes strictly from left to right, so the array is
  its allocated length and the bytes stored so far; \<^verbatim>\<open>current_position\<close> is the start
  plus the number of stored bytes.
\<close>

record out_array =
  allocated :: nat
  stored :: "byte list"

text \<open>
  \<^verbatim>\<open>memcpy(current_position, data, n)\<close> followed by the advance of
  \<^verbatim>\<open>current_position\<close>: reads \<open>n\<close> bytes at \<open>data\<close> and writes them at the current
  position.  Reading or writing outside the arrays fails.
\<close>

definition memcpy :: "out_array \<Rightarrow> byte list \<Rightarrow> nat \<Rightarrow> error + out_array" where
  "memcpy out src n =
     (if n \<le> length src \<and> length (stored out) + n \<le> allocated out
      then Inr (out\<lparr>stored := stored out @ take n src\<rparr>)
      else Inl heap_overrun)"

text \<open>The first loop of \<^verbatim>\<open>Writer::PackPointData\<close>, on the 32-bit \<^verbatim>\<open>schema_byte_size\<close>.\<close>

fun schema_byte_size_loop :: "Dimension list \<Rightarrow> uint32 \<Rightarrow> uint32" where
  "schema_byte_size_loop [] schema_byte_size = schema_byte_size"
| "schema_byte_size_loop (x # idx) schema_byte_size =
     (if \<not> isIgnored x
      then schema_byte_size_loop idx (schema_byte_size + of_nat (getByteSize x))
      else schema_byte_size_loop idx schema_byte_size)"

text \<open>The inner loop over the dimensions of one point; \<open>src\<close> is the pointer \<^verbatim>\<open>data\<close>.\<close>

fun pack_dimensions :: "Dimension list \<Rightarrow> byte list \<Rightarrow> out_array \<Rightarrow> error + out_array" where
  "pack_dimensions [] src out = Inr out"
| "pack_dimensions (x # idx) src out =
     (if \<not> isIgnored x
      then (case memcpy out src (getByteSize x) of
              Inl e \<Rightarrow> Inl e
            | Inr out' \<Rightarrow> pack_dimensions idx (drop (getByteSize x) src) out')
      else pack_dimensions idx (drop (getByteSize x) src) out)"

text \<open>The outer loop \<^verbatim>\<open>for (i = 0; i < buffer.getNumPoints(); ++i)\<close>.\<close>

function pack_points :: "PointBuffer \<Rightarrow> nat \<Rightarrow> out_array \<Rightarrow> error + out_array" where
  "pack_points buffer i out =
     (if i < unat (getNumPoints buffer)
      then (case pack_dimensions (getSchema buffer) (getData buffer i) out of
              Inl e \<Rightarrow> Inl e
            | Inr out' \<Rightarrow> pack_points buffer (i + 1) out')
      else Inr out)"
  by pat_completeness auto
termination
  by (relation "measure (\<lambda>(buffer, i, out). unat (getNumPoints buffer) - i)") auto

declare pack_points.simps [simp del]

text \<open>
  \<^verbatim>\<open>Writer::PackPointData\<close>: returns the array, \<^verbatim>\<open>point_data_len\<close> and
  \<^verbatim>\<open>schema_byte_size\<close>.  The length is the 32-bit product.
\<close>

definition PackPointData :: "PointBuffer \<Rightarrow> error + (byte list \<times> uint32 \<times> uint32)" where
  "PackPointData buffer =
     (let schema_byte_size = schema_byte_size_loop (getSchema buffer) 0;
          point_data_len = getNumPoints buffer * schema_byte_size;
          point_data = \<lparr>allocated = unat point_data_len, stored = []\<rparr>
      in case pack_points buffer 0 point_data of
           Inl e \<Rightarrow> Inl e
         | Inr out \<Rightarrow> Inr (stored out, point_data_len, schema_byte_size))"

text \<open>
  What the claims say the packing produces, in their words: the bytes of dimension \<open>k\<close>
  in a row, the concatenation of the non-ignored dimensions' bytes of a row in schema
  order, and the concatenation of that over the points of a buffer in index order.
\<close>

definition non_ignored :: "Schema \<Rightarrow> Dimension list" where
  "non_ignored s = filter (\<lambda>d. \<not> isIgnored d) s"

definition dimension_bytes :: "Schema \<Rightarrow> nat \<Rightarrow> byte list \<Rightarrow> byte list" where
  "dimension_bytes s k row = take (getByteSize (s ! k)) (drop (rowByteSize (take k s)) row)"

definition packed_row :: "Schema \<Rightarrow> byte list \<Rightarrow> byte list" where
  "packed_row s row =
     concat (map (\<lambda>k. dimension_bytes s k row)
                 (filter (\<lambda>k. \<not> isIgnored (s ! k)) [0..<length s]))"



text \<open>
  Modelled from the spec: \<^verbatim>\<open>Schema::operator==\<close> is not among the sources.  Two schemas
  are equal when their sets of dimensions are equal; a dimension counts with all its
  attributes.
\<close>

definition schema_equal :: "Schema \<Rightarrow> Schema \<Rightarrow> bool" where
  "schema_equal a b = (set a = set b)"

section \<open>Options\<close>

text \<open>
  Modelled from the spec: class Options is not among the sources.  It is a string-keyed
  map; the accessor for a type converts the stored text with that type's conversion
  \<open>conv\<close>.  \<^verbatim>\<open>getValueOrThrow\<close> fails with MissingOptionError, naming the key, when the
  key is absent; \<^verbatim>\<open>getValueOrDefault\<close> falls back to the default at that failure.
\<close>

type_synonym Options = "string \<rightharpoonup> string"

definition getValueOrThrow :: "(string \<Rightarrow> 'a) \<Rightarrow> Options \<Rightarrow> string \<Rightarrow> error + 'a" where
  "getValueOrThrow conv opts k =
     (case opts k of
        None \<Rightarrow> Inl (MissingOptionError k)
      | Some v \<Rightarrow> Inr (conv v))"

definition getValueOrDefault :: "(string \<Rightarrow> 'a) \<Rightarrow> Options \<Rightarrow> string \<Rightarrow> 'a \<Rightarrow> 'a" where
  "getValueOrDefault conv opts k dflt =
     (case getValueOrThrow conv opts k of
        Inl e \<Rightarrow> dflt
      | Inr v \<Rightarrow> v)"

section \<open>The database session\<close>

text \<open>
  What the writer sends through \<^verbatim>\<open>m_session\<close>: \<^verbatim>\<open>begin()\<close>, \<^verbatim>\<open>commit()\<close>, a
  statement text (\<^verbatim>\<open>once << sql\<close>) and a statement text with bound values
  (\<^verbatim>\<open>use(v, name)\<close>).  \<open>tx_rollback\<close> is \<^verbatim>\<open>rollback()\<close>, which a session offers as well.
\<close>

datatype bound_value = use_uint32 uint32 string | use_string string string

datatype statement =
    tx_begin
  | tx_commit
  | tx_rollback
  | once string
  | once_use string "bound_value list"

text \<open>
  The part of the database the writer's queries read: the rows (pcid, srid, schema) of
  \<^verbatim>\<open>pointcloud_formats\<close> and the names in \<^verbatim>\<open>pg_tables\<close>.  A session is the
  statements sent so far, oldest first, and the database as it stands.
\<close>

record database =
  pointcloud_formats :: "(int \<times> int \<times> string) list"
  pg_tables :: "string list"

record session =
  statements :: "statement list"
  db :: database

datatype CompressionType = COMPRESSION_NONE | COMPRESSION_GHT | COMPRESSION_DIMENSIONAL

datatype endianness = LITTLE_ENDIAN | BIG_ENDIAN | NEITHER_ENDIAN

text \<open>
  The library functions and macros the writer calls whose code is not among the sources,
  as parameters: the compression name parser, the lexical conversions of option values,
  the session constructor (\<open>Inl\<close> the message of the \<^verbatim>\<open>soci_error\<close>), the file reader,
  the XML encoding of schemas, \<^verbatim>\<open>boost::iequals\<close>, the hex encoder, the byte swap macro
  and the platform's byte order, and what the database does with a statement.
\<close>

record env =
  getCompressionType :: "string \<Rightarrow> CompressionType"
  lexical_bool :: "string \<Rightarrow> bool"
  lexical_uint32 :: "string \<Rightarrow> uint32"
  soci_connect :: "string \<Rightarrow> string + session"
  readFileAsString :: "string \<Rightarrow> string"
  from_xml :: "string \<Rightarrow> Schema"
  to_xml :: "Schema \<Rightarrow> string \<Rightarrow> string"
  iequals :: "string \<Rightarrow> string \<Rightarrow> bool"
  binary_to_hex_string :: "byte list \<Rightarrow> string"
  SWAP_ENDIANNESS :: "uint32 \<Rightarrow> uint32"
  byte_order :: endianness
  execute :: "statement \<Rightarrow> database \<Rightarrow> database"

text \<open>Numbers written into a stream (\<^verbatim>\<open>oss << n\<close>) and \<^verbatim>\<open>boost::format("%08x")\<close>.\<close>

definition digit :: "nat \<Rightarrow> char" where
  "digit n = ''0123456789abcdef'' ! (n mod 16)"

function show_nat :: "nat \<Rightarrow> string" where
  "show_nat n = (if n < 10 then [digit n] else show_nat (n div 10) @ [digit (n mod 10)])"
  by pat_completeness auto
termination
  by (relation "measure (\<lambda>n. n)") auto

text \<open>
  The recursive equations of the loops are unfolded by hand where they are needed.
\<close>

declare show_nat.simps [simp del]

definition format_02x :: "nat \<Rightarrow> string" where
  "format_02x n = (if n < 16 then [digit 0, digit n] else [digit (n div 16), digit n])"

definition format_08x :: "uint32 \<Rightarrow> string" where
  "format_08x w = map (\<lambda>i. digit (unat w div 16 ^ i)) [7, 6, 5, 4, 3, 2, 1, 0]"

section \<open>The pgpointcloud writer\<close>

record Writer =
  m_options :: Options
  m_session :: session
  m_pdal_schema :: Schema
  m_schema_name :: string
  m_table_name :: string
  m_column_name :: string
  m_patch_compression_type :: CompressionType
  m_patch_capacity :: uint32
  m_srid :: uint32
  m_pcid :: uint32
  m_have_postgis :: bool
  m_create_index :: bool
  m_overwrite :: bool
  m_sdo_pc_is_initialized :: bool

text \<open>
  A method of the writer returns its result or the exception it throws, and the writer
  as the method leaves it: what a method has done before it throws stays done.
\<close>

type_synonym 'a outcome = "(error + 'a) \<times> Writer"

text \<open>
  Sending through the session.  A statement is recorded and the database reacts to it; a
  query (a \<^verbatim>\<open>SELECT\<close> read with \<^verbatim>\<open>into\<close> or as a rowset) is recorded and leaves the
  database as it is.
\<close>

definition send :: "env \<Rightarrow> statement \<Rightarrow> Writer \<Rightarrow> Writer" where
  "send e st w =
     w\<lparr>m_session := (m_session w)\<lparr>statements := statements (m_session w) @ [st],
                                   db := execute e st (db (m_session w))\<rparr>\<rparr>"

definition query :: "string \<Rightarrow> Writer \<Rightarrow> Writer" where
  "query sql w =
     w\<lparr>m_session := (m_session w)\<lparr>statements := statements (m_session w) @ [once sql]\<rparr>\<rparr>"

text \<open>
  The statements a method has sent, given the writer before and after it; and the
  methods that neither commit nor roll back: they only add statements, none of them
  \<open>tx_commit\<close> or \<open>tx_rollback\<close>.
\<close>

definition sent_since :: "Writer \<Rightarrow> Writer \<Rightarrow> statement list" where
  "sent_since w w' = drop (length (statements (m_session w))) (statements (m_session w'))"

definition quiet :: "Writer \<Rightarrow> Writer \<Rightarrow> bool" where
  "quiet w w' =
     (statements (m_session w') = statements (m_session w) @ sent_since w w' \<and>
      tx_rollback \<notin> set (sent_since w w') \<and> tx_commit \<notin> set (sent_since w w'))"

definition formats :: "Writer \<Rightarrow> (int \<times> int \<times> string) list" where
  "formats w = pointcloud_formats (db (m_session w))"


text \<open>\<^verbatim>\<open>Writer::CheckTableExists\<close>: the loop over the rowset, left at the first match.\<close>

fun table_in_rowset :: "env \<Rightarrow> string list \<Rightarrow> string \<Rightarrow> bool" where
  "table_in_rowset e [] n = False"
| "table_in_rowset e (t # rs) n = (if iequals e t n then True else table_in_rowset e rs n)"

definition CheckTableExists :: "env \<Rightarrow> string \<Rightarrow> Writer \<Rightarrow> bool \<times> Writer" where
  "CheckTableExists e n w =
     (let w = query ''SELECT tablename FROM pg_tables'' w
      in (table_in_rowset e (pg_tables (db (m_session w))) n, w))"

definition DeleteTable :: "env \<Rightarrow> string \<Rightarrow> string \<Rightarrow> Writer \<Rightarrow> Writer" where
  "DeleteTable e schema_name table_name w =
     (let oss = ''DROP TABLE IF EXISTS '';
          oss = (if length schema_name \<noteq> 0 then oss @ schema_name @ ''.'' else oss);
          oss = oss @ table_name
      in send e (once oss) w)"

definition CreateTable :: "env \<Rightarrow> string \<Rightarrow> string \<Rightarrow> string \<Rightarrow> uint32 \<Rightarrow> Writer \<Rightarrow> Writer" where
  "CreateTable e schema_name table_name column_name pcid w =
     (let oss = ''CREATE TABLE '';
          oss = (if length schema_name \<noteq> 0 then oss @ schema_name @ ''.'' else oss);
          oss = oss @ table_name;
          oss = oss @ '' (id SERIAL PRIMARY KEY, '' @ column_name @ '' PcPatch'';
          oss = (if pcid \<noteq> 0 then oss @ ''('' @ show_nat (unat pcid) @ '')'' else oss);
          oss = oss @ '')''
      in send e (once oss) w)"

definition CreateIndex :: "env \<Rightarrow> string \<Rightarrow> string \<Rightarrow> string \<Rightarrow> Writer \<Rightarrow> Writer" where
  "CreateIndex e schema_name table_name column_name w =
     (let oss = ''CREATE INDEX '';
          oss = (if length schema_name \<noteq> 0 then oss @ schema_name @ ''_'' else oss);
          oss = oss @ table_name @ ''_pc_gix'';
          oss = oss @ '' USING GIST (Geometry('' @ column_name @ ''))''
      in send e (once oss) w)"

text \<open>
  \<^verbatim>\<open>Writer::SetupSchema\<close>.  The loop over the fetched rows stops at the first row whose
  schema equals the packed one; \<open>Max(pcid)+1\<close> is computed by the database on its
  integers and read into the 32-bit \<^verbatim>\<open>pcid\<close>.
\<close>

fun matching_pcid :: "env \<Rightarrow> (int \<times> int \<times> string) list \<Rightarrow> Schema \<Rightarrow> int option" where
  "matching_pcid e [] output_schema = None"
| "matching_pcid e (r # rows) output_schema =
     (if schema_equal (from_xml e (snd (snd r))) output_schema
      then Some (fst r)
      else matching_pcid e rows output_schema)"


fun max_pcid :: "(int \<times> int \<times> string) list \<Rightarrow> int" where
  "max_pcid [] = 0"
| "max_pcid [r] = fst r"
| "max_pcid (r # rows) = max (fst r) (max_pcid rows)"

definition compression_name :: "CompressionType \<Rightarrow> string" where
  "compression_name c =
     (if c = COMPRESSION_DIMENSIONAL then ''dimensional''
      else if c = COMPRESSION_GHT then ''ght''
      else [])"

definition insert_format :: "uint32 \<Rightarrow> uint32 \<Rightarrow> string \<Rightarrow> statement" where
  "insert_format pcid srid xml =
     once_use ''INSERT INTO pointcloud_formats (pcid, srid, schema) VALUES (:pcid, :srid, :xml)''
       [use_uint32 pcid ''pcid'', use_uint32 srid ''srid'', use_string xml ''xml'']"

definition SetupSchema :: "env \<Rightarrow> Schema \<Rightarrow> uint32 \<Rightarrow> Writer \<Rightarrow> uint32 outcome" where
  "SetupSchema e buffer_schema srid w =
     (let output_schema = PackSchema buffer_schema
      in if m_pcid w \<noteq> 0
         then
           let w = query (''SELECT Count(pcid) FROM pointcloud_formats WHERE pcid = ''
                            @ show_nat (unat (m_pcid w))) w;
               schema_count = length (filter (\<lambda>r. fst r = uint (m_pcid w)) (formats w))
           in if schema_count = 0
              then (Inl (requested_pcid_does_not_exist (m_pcid w)), w)
              else (Inr (m_pcid w), w)
         else
           let w = query ''SELECT Count(pcid) FROM pointcloud_formats'' w;
               schema_count = length (formats w);
               w = (if schema_count > 0
                    then query ''SELECT pcid, schema FROM pointcloud_formats'' w else w);
               found = (if schema_count > 0
                        then matching_pcid e (formats w) output_schema else None)
           in case found of
                Some i \<Rightarrow>
                  let pcid = of_int i
                  in (Inr pcid, w\<lparr>m_pcid := pcid\<rparr>)
              | None \<Rightarrow>
                  let w = (if schema_count = 0 then w
                           else query ''SELECT Max(pcid)+1 AS pcid FROM pointcloud_formats'' w);
                      pcid = (if schema_count = 0 then 1 else of_int (max_pcid (formats w) + 1));
                      xml = to_xml e output_schema (compression_name (m_patch_compression_type w));
                      w = send e (insert_format pcid srid xml) w
                  in (Inr pcid, w\<lparr>m_pcid := pcid\<rparr>))"

text \<open>
  The SQL of the \<^verbatim>\<open>pre_sql\<close> and \<^verbatim>\<open>post_sql\<close> options: a file's content, or the
  option's text itself when no such file could be read.
\<close>

definition run_option_sql :: "env \<Rightarrow> string \<Rightarrow> Writer \<Rightarrow> Writer" where
  "run_option_sql e k w =
     (let option_sql = getValueOrDefault (\<lambda>v. v) (m_options w) k []
      in if length option_sql \<noteq> 0
         then let sql = readFileAsString e option_sql;
                  sql = (if length sql = 0 then option_sql else sql)
              in send e (once sql) w
         else w)"

definition writeBegin :: "env \<Rightarrow> uint64 \<Rightarrow> Writer \<Rightarrow> unit outcome" where
  "writeBegin e targetNumPointsToWrite w =
     (let w = send e tx_begin w;
          w = run_option_sql e ''pre_sql'' w;
          (bHaveTable, w) = CheckTableExists e (m_table_name w) w;
          (bHaveTable, w) =
             (if m_overwrite w \<and> bHaveTable
              then (False, DeleteTable e (m_schema_name w) (m_table_name w) w)
              else (bHaveTable, w))
      in case SetupSchema e (m_pdal_schema w) (m_srid w) w of
           (Inl err, w) \<Rightarrow> (Inl err, w)
         | (Inr pcid, w) \<Rightarrow>
             let w = w\<lparr>m_pcid := pcid\<rparr>;
                 w = (if \<not> bHaveTable
                      then CreateTable e (m_schema_name w) (m_table_name w) (m_column_name w)
                             (m_pcid w) w
                      else w)
             in (Inr (), w))"

definition writeEnd :: "env \<Rightarrow> uint64 \<Rightarrow> Writer \<Rightarrow> unit outcome" where
  "writeEnd e actualNumPointsWritten w =
     (let w = (if m_create_index w \<and> m_have_postgis w
               then CreateIndex e (m_schema_name w) (m_table_name w) (m_column_name w) w
               else w);
          w = run_option_sql e ''post_sql'' w;
          w = send e tx_commit w
      in (Inr (), w))"

definition writeBufferBegin :: "PointBuffer \<Rightarrow> Writer \<Rightarrow> unit outcome" where
  "writeBufferBegin buffer w =
     (if \<not> m_sdo_pc_is_initialized w
      then (Inr (), w\<lparr>m_sdo_pc_is_initialized := True\<rparr>)
      else (Inr (), w))"

text \<open>
  The stream \<^verbatim>\<open>options\<close> of \<^verbatim>\<open>Writer::WriteBlock\<close>: the byte order mark and the
  three header words of a patch, byte-swapped on a little-endian platform.
\<close>

definition patch_options :: "env \<Rightarrow> uint32 \<Rightarrow> uint32 \<Rightarrow> uint32 \<Rightarrow> string" where
  "patch_options e pcid compression num_points =
     (case byte_order e of
        LITTLE_ENDIAN \<Rightarrow>
          format_02x 1 @ format_08x (SWAP_ENDIANNESS e pcid)
            @ format_08x (SWAP_ENDIANNESS e compression)
            @ format_08x (SWAP_ENDIANNESS e num_points)
      | BIG_ENDIAN \<Rightarrow>
          format_02x 0 @ format_08x pcid @ format_08x compression @ format_08x num_points
      | NEITHER_ENDIAN \<Rightarrow>
          format_08x pcid @ format_08x compression @ format_08x num_points)"

text \<open>
  \<^verbatim>\<open>Writer::WriteBlock\<close>.  The body of the capacity check is empty in the source (a
  comment only), so both branches leave the writer as it is.
\<close>

definition WriteBlock :: "env \<Rightarrow> PointBuffer \<Rightarrow> Writer \<Rightarrow> bool outcome" where
  "WriteBlock e buffer w =
     (case PackPointData buffer of
        Inl err \<Rightarrow> (Inl err, w)
      | Inr (point_data, point_data_length, schema_byte_size) \<Rightarrow>
          (case getDimension (getSchema buffer) ''BlockID'' of
             Inl err \<Rightarrow> (Inl err, w)
           | Inr blockDim \<Rightarrow>
               let num_points = getNumPoints buffer;
                   w = (if num_points > m_patch_capacity w then w else w);
                   block_data = take (unat point_data_length) point_data;
                   pcid = m_pcid w;
                   compression = (0 :: uint32);
                   oss = ''INSERT INTO '' @ m_table_name w @ '' (pa) VALUES (:hex)'';
                   hex = patch_options e pcid compression num_points
                           @ binary_to_hex_string e block_data
               in (Inr True, send e (once_use oss [use_string hex ''hex'']) w)))"

definition writeBuffer :: "env \<Rightarrow> PointBuffer \<Rightarrow> Writer \<Rightarrow> uint32 outcome" where
  "writeBuffer e buffer w =
     (let numPoints = getNumPoints buffer
      in case WriteBlock e buffer w of
           (Inl err, w) \<Rightarrow> (Inl err, w)
         | (Inr ok, w) \<Rightarrow> (Inr numPoints, w))"

text \<open>The drive loop's writer interface, instantiated with the pgpointcloud writer.\<close>

definition writeBufferEnd :: "PointBuffer \<Rightarrow> Writer \<Rightarrow> unit outcome" where
  "writeBufferEnd buffer w = (Inr (), w)"

section \<open>Stage iterators\<close>

text \<open>
  Modelled from the spec: the stage behind an iterator.  The header of the iterators
  declares the pure virtual \<^verbatim>\<open>readImpl\<close> only; the sources hold no stage that implements
  it.  A stage here has a schema, a known number of points (a 64-bit count, as
  \<^verbatim>\<open>Stage::getNumPoints\<close> returns it), the row of each point, and the point indices at
  which pulling from the underlying source fails.
\<close>

record Stage =
  st_schema :: Schema
  st_numPoints :: uint64
  st_row :: "nat \<Rightarrow> byte list"
  st_fails :: "nat \<Rightarrow> bool"

text \<open>
  The iterator's state as the header declares it: the stage, \<^verbatim>\<open>m_index\<close> and
  \<^verbatim>\<open>m_chunkSize\<close>.
\<close>

record StageIterator =
  m_stage :: Stage
  m_index :: uint64
  m_chunkSize :: uint32

definition getIndex :: "StageIterator \<Rightarrow> uint64" where
  "getIndex it = m_index it"

definition getChunkSize :: "StageIterator \<Rightarrow> uint32" where
  "getChunkSize it = m_chunkSize it"

definition setChunkSize :: "uint32 \<Rightarrow> StageIterator \<Rightarrow> StageIterator" where
  "setChunkSize n it = it\<lparr>m_chunkSize := n\<rparr>"

text \<open>
  Modelled from the spec: \<^verbatim>\<open>StageSequentialIterator::atEnd\<close> (declared in the header, its
  code is not among the sources) is true once the current index has reached the number of
  available points.
\<close>

definition atEnd :: "StageIterator \<Rightarrow> bool" where
  "atEnd it = (st_numPoints (m_stage it) \<le> m_index it)"

text \<open>
  Modelled from the spec: \<^verbatim>\<open>StageIterator::read\<close> (declared in the header, its code is
  not among the sources).  It asks for \<open>min(chunkSize, buffer.capacity)\<close> points starting at
  the current index, places the points the stage still has at the front of the buffer,
  leaves the rest of the buffer as it was, sets the fill count, advances the index by the
  number placed and returns that number.  A failing source makes it fail with ReadError
  and changes nothing.
\<close>

definition read ::
  "StageIterator \<Rightarrow> PointBuffer \<Rightarrow> (error + uint32) \<times> StageIterator \<times> PointBuffer" where
  "read it buffer =
     (let requested = min (unat (m_chunkSize it)) (unat (m_capacity buffer));
          start = unat (m_index it)
      in if st_fails (m_stage it) start then (Inl ReadError, it, buffer)
         else
           let numRead = min requested (unat (st_numPoints (m_stage it)) - start);
               bytes = concat (map (st_row (m_stage it)) [start..<start + numRead])
           in (Inr (of_nat numRead),
               it\<lparr>m_index := m_index it + of_nat numRead\<rparr>,
               buffer\<lparr>m_numPoints := of_nat numRead,
                      m_data := bytes @ drop (length bytes) (m_data buffer)\<rparr>))"

text \<open>
  Modelled from the spec: \<^verbatim>\<open>StageSequentialIterator::skip\<close> (declared in the header, its
  code is not among the sources), as the contract states it: it advances the index by
  \<open>count\<close> or by the points that are left, whichever is less, without reading any data,
  and returns the number skipped.
\<close>

definition skip :: "StageIterator \<Rightarrow> uint64 \<Rightarrow> (error + uint64) \<times> StageIterator" where
  "skip it count =
     (let numSkipped = min (unat count) (unat (st_numPoints (m_stage it)) - unat (m_index it))
      in (Inr (of_nat numSkipped), it\<lparr>m_index := m_index it + of_nat numSkipped\<rparr>))"

text \<open>A fresh buffer of the given capacity (\<^verbatim>\<open>PointBuffer(schema, capacity)\<close>).\<close>

definition new_buffer :: "Schema \<Rightarrow> uint32 \<Rightarrow> PointBuffer" where
  "new_buffer s capacity =
     \<lparr>m_schema = s, m_capacity = capacity, m_numPoints = 0,
      m_data = replicate (unat capacity * rowByteSize s) 0\<rparr>"

text \<open>
  What a successful \<open>read\<close> returns and how it moves the index, for the termination of the
  loops that call it.
\<close>

lemma unat_ucast_32_64: "unat (ucast (c :: uint32) :: uint64) = unat c"
proof -
  have "unat c < 2 ^ 32" using unsigned_less [of c] by simp
  also have "(2 :: nat) ^ 32 \<le> 2 ^ 64" by simp
  finally show ?thesis
    by (simp add: unsigned_ucast_eq take_bit_nat_eq_self)
qed

lemma unat_min_word: "unat (min a (b :: 'a :: len word)) = min (unat a) (unat b)"
  by (simp add: min_def word_le_nat_alt)

lemma junk_capacity:
  "unat (ucast (min (ucast (c :: uint32)) (count :: uint64)) :: uint32) = min (unat c) (unat count)"
proof -
  have "min (unat c) (unat count) \<le> unat c" by simp
  also have "\<dots> < 2 ^ 32" using unsigned_less [of c] by simp
  finally have small: "min (unat c) (unat count) < 2 ^ 32" .
  have a: "unat (min (ucast c) count) = min (unat c) (unat count)"
    by (simp only: unat_min_word unat_ucast_32_64)
  have "unat (ucast (min (ucast c) count) :: uint32) = take_bit 32 (unat (min (ucast c) count))"
    using unsigned_ucast_eq [of "min (ucast c) count", where 'c = 32 and 'a = nat] by simp
  also have "\<dots> = min (unat c) (unat count)"
    using small by (simp only: a take_bit_nat_eq_self)
  finally show ?thesis .
qed

lemma read_count:
  assumes r: "read it buffer = (Inr n, it', b')"
  shows "unat n = min (min (unat (m_chunkSize it)) (unat (m_capacity buffer)))
                      (unat (st_numPoints (m_stage it)) - unat (m_index it))"
proof -
  let ?k = "min (min (unat (m_chunkSize it)) (unat (m_capacity buffer)))
                (unat (st_numPoints (m_stage it)) - unat (m_index it))"
  have "?k \<le> unat (m_chunkSize it)" by simp
  also have "\<dots> < 2 ^ 32" using unsigned_less [of "m_chunkSize it"] by simp
  finally have "unat (of_nat ?k :: uint32) = ?k"
    by (simp add: unat_of_nat)
  moreover from r have "n = of_nat ?k"
    by (auto simp: read_def Let_def split: if_splits)
  ultimately show ?thesis by simp
qed

lemma read_index:
  assumes r: "read it buffer = (Inr n, it', b')"
  shows "it' = it\<lparr>m_index := m_index it + ucast n\<rparr>"
proof -
  let ?k = "min (min (unat (m_chunkSize it)) (unat (m_capacity buffer)))
                (unat (st_numPoints (m_stage it)) - unat (m_index it))"
  from r have "it' = it\<lparr>m_index := m_index it + of_nat ?k\<rparr>"
    by (auto simp: read_def Let_def split: if_splits)
  moreover from read_count [OF r] have "(of_nat ?k :: uint64) = of_nat (unat n)" by simp
  ultimately show ?thesis by simp
qed

lemma read_progress:
  assumes r: "read it buffer = (Inr n, it', b')"
  shows "m_stage it' = m_stage it \<and> unat (m_index it') = unat (m_index it) + unat n"
proof (cases "n = 0")
  case True
  with read_index [OF r] show ?thesis by simp
next
  case False
  let ?total = "unat (st_numPoints (m_stage it))"
  from read_count [OF r] have k: "unat n \<le> ?total - unat (m_index it)" by simp
  from False have "0 < unat n" by (simp add: unat_gt_0)
  with k have "unat (m_index it) + unat n \<le> ?total" by simp
  also have "?total < 2 ^ 64" using unsigned_less [of "st_numPoints (m_stage it)"] by simp
  finally have "unat (m_index it) + unat (ucast n :: uint64) < 2 ^ LENGTH(64)"
    by (simp add: unat_ucast_32_64)
  then have "unat (m_index it + ucast n) = unat (m_index it) + unat (ucast n :: uint64)"
    by (simp only: unat_add_lem)
  with read_index [OF r] show ?thesis by (simp add: unat_ucast_32_64)
qed

lemma read_decreases:
  assumes r: "(Inr n, y) = read it buffer" and y: "(it', b') = y" and n: "n \<noteq> 0"
  shows "unat (st_numPoints (m_stage it')) - unat (m_index it')
           < unat (st_numPoints (m_stage it)) - unat (m_index it)"
proof -
  from r y have r': "read it buffer = (Inr n, it', b')" by simp
  from n have "0 < unat n" by (simp add: unat_gt_0)
  moreover from read_count [OF r']
  have "unat n \<le> unat (st_numPoints (m_stage it)) - unat (m_index it)" by simp
  ultimately show ?thesis using read_progress [OF r'] by simp
qed

lemma skip_step_decreases:
  assumes r: "read it (new_buffer s (ucast (min (ucast (m_chunkSize it)) count))) = (Inr n, it', b')"
    and n: "n \<noteq> 0"
  shows "ucast n \<le> count \<and> unat (count - ucast n) < unat (count :: uint64)"
proof -
  from read_count [OF r] have "unat n \<le> min (unat (m_chunkSize it)) (unat count)"
    by (simp only: new_buffer_def junk_capacity PointBuffer.simps min.cobounded1)
  then have le: "unat (ucast n :: uint64) \<le> unat count"
    by (simp add: unat_ucast_32_64)
  then have le': "ucast n \<le> count" by (simp add: word_le_nat_alt)
  then have "unat (count - ucast n) = unat count - unat (ucast n :: uint64)"
    by (rule unat_sub)
  moreover from n have "0 < unat (ucast n :: uint64)"
    by (simp add: unat_ucast_32_64 unat_gt_0)
  ultimately show ?thesis using le le' by simp
qed

text \<open>
  Modelled from the spec: \<^verbatim>\<open>StageIterator::naiveSkipImpl\<close> (declared in the header, its
  code is not among the sources), the default way to skip: it reads into a throwaway
  buffer, a chunk at a time, until \<open>count\<close> points are read or a read returns no point,
  and returns the number of points read.  A ReadError of a read is passed on.
\<close>

function naiveSkipImpl_loop ::
  "StageIterator \<Rightarrow> uint64 \<Rightarrow> uint64 \<Rightarrow> (error + uint64) \<times> StageIterator" where
  "naiveSkipImpl_loop it count totalNumRead =
     (if count > 0
      then let thisCount = min (ucast (m_chunkSize it)) count;
               junk = new_buffer (st_schema (m_stage it)) (ucast thisCount)
           in (case read it junk of
                 (Inl e, it', junk') \<Rightarrow> (Inl e, it')
               | (Inr numRead, it', junk') \<Rightarrow>
                   if numRead = 0 then (Inr totalNumRead, it')
                   else naiveSkipImpl_loop it' (count - ucast numRead)
                          (totalNumRead + ucast numRead))
      else (Inr totalNumRead, it))"
  by pat_completeness auto
termination
proof (relation "measure (\<lambda>(it, count, total). unat count)", goal_cases)
  case 1
  then show ?case by simp
next
  case (2 it count totalNumRead thisCount junk x1 it' x2 junk' numRead)
  then show ?case
    using skip_step_decreases [of it "st_schema (m_stage it)" count x2 junk' numRead]
    by simp
qed

declare naiveSkipImpl_loop.simps [simp del]

definition naiveSkipImpl :: "StageIterator \<Rightarrow> uint64 \<Rightarrow> (error + uint64) \<times> StageIterator" where
  "naiveSkipImpl it count = naiveSkipImpl_loop it count 0"

section \<open>The writer drive loop\<close>

text \<open>
  Modelled from the spec: \<^verbatim>\<open>Writer::write\<close> of the base class is declared in the
  interface file, its code is not among the sources.  The loop is written against the
  five methods a concrete writer implements, here a record of functions on the writer's
  state.  Its own state is the writer, the iterator pulled from the previous stage, the
  number of points written so far and, for the claims about the order of calls, the list
  of the calls made so far.
\<close>

record 'w writer_ops =
  ops_writeBegin :: "uint64 \<Rightarrow> 'w \<Rightarrow> (error + unit) \<times> 'w"
  ops_writeBufferBegin :: "PointBuffer \<Rightarrow> 'w \<Rightarrow> (error + unit) \<times> 'w"
  ops_writeBuffer :: "PointBuffer \<Rightarrow> 'w \<Rightarrow> (error + uint32) \<times> 'w"
  ops_writeBufferEnd :: "PointBuffer \<Rightarrow> 'w \<Rightarrow> (error + unit) \<times> 'w"
  ops_writeEnd :: "uint64 \<Rightarrow> 'w \<Rightarrow> (error + unit) \<times> 'w"

datatype call =
    call_writeBegin uint64
  | call_read
  | call_writeBufferBegin
  | call_writeBuffer PointBuffer
  | call_writeBufferEnd
  | call_writeEnd uint64

record 'w drive =
  writer :: 'w
  iter :: StageIterator
  actualNumPointsWritten :: uint64
  calls :: "call list"

definition called :: "call \<Rightarrow> 'w drive \<Rightarrow> 'w drive" where
  "called c st = st\<lparr>calls := calls st @ [c]\<rparr>"

text \<open>
  The loop between the bracket.  With a target of 0 it runs until a read returns no
  point; with a target it also stops when the target is reached, and it never asks for
  more than what is missing to the target.  The first error ends it.
\<close>

function write_loop ::
  "'w writer_ops \<Rightarrow> uint64 \<Rightarrow> uint32 \<Rightarrow> 'w drive \<Rightarrow> error option \<times> 'w drive" where
  "write_loop ops targetNumPointsToWrite chunkSize st =
     (if targetNumPointsToWrite \<noteq> 0 \<and> targetNumPointsToWrite \<le> actualNumPointsWritten st
      then (None, st)
      else
        let capacity =
              (if targetNumPointsToWrite = 0 then chunkSize
               else ucast (min (ucast chunkSize)
                               (targetNumPointsToWrite - actualNumPointsWritten st)));
            buffer = new_buffer (st_schema (m_stage (iter st))) capacity
        in (case read (iter st) buffer of
              (Inl e, it, buffer) \<Rightarrow> (Some e, called call_read (st\<lparr>iter := it\<rparr>))
            | (Inr numRead, it, buffer) \<Rightarrow>
                let st = called call_read (st\<lparr>iter := it\<rparr>)
                in if numRead = 0 then (None, st)
                   else
                     (case ops_writeBufferBegin ops buffer (writer st) of
                        (Inl e, w) \<Rightarrow> (Some e, called call_writeBufferBegin (st\<lparr>writer := w\<rparr>))
                      | (Inr u, w) \<Rightarrow>
                          let st = called call_writeBufferBegin (st\<lparr>writer := w\<rparr>)
                          in (case ops_writeBuffer ops buffer (writer st) of
                                (Inl e, w) \<Rightarrow>
                                  (Some e, called (call_writeBuffer buffer) (st\<lparr>writer := w\<rparr>))
                              | (Inr numWritten, w) \<Rightarrow>
                                  let st = called (call_writeBuffer buffer) (st\<lparr>writer := w\<rparr>)
                                  in (case ops_writeBufferEnd ops buffer (writer st) of
                                        (Inl e, w) \<Rightarrow>
                                          (Some e, called call_writeBufferEnd (st\<lparr>writer := w\<rparr>))
                                      | (Inr u, w) \<Rightarrow>
                                          write_loop ops targetNumPointsToWrite chunkSize
                                            (called call_writeBufferEnd
                                               (st\<lparr>writer := w,
                                                   actualNumPointsWritten :=
                                                     actualNumPointsWritten st + ucast numWritten\<rparr>)))))))"
  by pat_completeness auto
termination
proof (relation "measure (\<lambda>(ops, t, c, st).
         unat (st_numPoints (m_stage (iter st))) - unat (m_index (iter st)))", goal_cases)
  case 1
  then show ?case by simp
next
  case 2
  then show ?case
    by (simp add: called_def) (rule read_decreases; assumption)
qed

declare write_loop.simps [simp del]

text \<open>
  \<open>writeEnd\<close> closes the bracket on every path: after the loop has ended, with or without
  an error, and after a failed \<open>writeBegin\<close>.  The first error is the result.
\<close>

definition finish :: "'w writer_ops \<Rightarrow> error option \<Rightarrow> 'w drive \<Rightarrow> (error + uint64) \<times> 'w drive" where
  "finish ops err st =
     (case ops_writeEnd ops (actualNumPointsWritten st) (writer st) of
        (r, w) \<Rightarrow>
          (case err of
             Some e \<Rightarrow> Inl e
           | None \<Rightarrow> (case r of Inl e \<Rightarrow> Inl e | Inr u \<Rightarrow> Inr (actualNumPointsWritten st)),
           called (call_writeEnd (actualNumPointsWritten st)) (st\<lparr>writer := w\<rparr>)))"

definition Writer_write ::
  "'w writer_ops \<Rightarrow> uint32 \<Rightarrow> uint64 \<Rightarrow> 'w \<Rightarrow> StageIterator \<Rightarrow> (error + uint64) \<times> 'w drive" where
  "Writer_write ops chunkSize targetNumPointsToWrite w it =
     (case ops_writeBegin ops targetNumPointsToWrite w of
        (r, w) \<Rightarrow>
          let st = \<lparr>writer = w, iter = it, actualNumPointsWritten = 0,
                    calls = [call_writeBegin targetNumPointsToWrite]\<rparr>
          in (case r of
                Inl e \<Rightarrow> finish ops (Some e) st
              | Inr u \<Rightarrow>
                  (case write_loop ops targetNumPointsToWrite chunkSize st of
                     (err, st) \<Rightarrow> finish ops err st)))"

text \<open>The calls of the bracket, and the buffers handed to \<open>writeBuffer\<close>.\<close>

fun is_bracket :: "call \<Rightarrow> bool" where
  "is_bracket (call_writeBegin n) = True"
| "is_bracket (call_writeEnd n) = True"
| "is_bracket c = False"

fun written_points :: "call list \<Rightarrow> nat" where
  "written_points [] = 0"
| "written_points (call_writeBuffer b # cs) = unat (m_numPoints b) + written_points cs"
| "written_points (c # cs) = written_points cs"

text \<open>The pgpointcloud writer as the writer of the drive loop.\<close>

definition pgpointcloud_ops :: "env \<Rightarrow> Writer writer_ops" where
  "pgpointcloud_ops e =
     \<lparr>ops_writeBegin = writeBegin e,
      ops_writeBufferBegin = writeBufferBegin,
      ops_writeBuffer = writeBuffer e,
      ops_writeBufferEnd = writeBufferEnd,
      ops_writeEnd = writeEnd e\<rparr>"

section \<open>Concrete inputs\<close>

text \<open>
  The schema of the spec's scenario: two doubles and an ignored one-byte classification.
\<close>

definition dim_X :: Dimension where
  "dim_X = \<lparr>m_name = ''X'', m_dataType = Double, m_description = ''x coordinate'',
            m_numericScale = 1 / 100, m_numericOffset = 0, m_min = 0, m_max = 0,
            m_precise = False, m_ignored = False, m_parent = 7, m_position = 0,
            m_byteOffset = 0\<rparr>"

definition dim_Y :: Dimension where
  "dim_Y = dim_X\<lparr>m_name := ''Y'', m_description := ''y coordinate'', m_position := 1,
                 m_byteOffset := 8\<rparr>"

definition dim_Classification :: Dimension where
  "dim_Classification =
     dim_X\<lparr>m_name := ''Classification'', m_dataType := Uint8, m_description := [],
           m_numericScale := 1, m_ignored := True, m_position := 2, m_byteOffset := 16\<rparr>"

definition scenario_schema :: Schema where
  "scenario_schema = [dim_X, dim_Classification, dim_Y]"













section \<open>Packing: the layout of a packed schema\<close>

lemma getByteSize_pos: "0 < getByteSize d"
  by (cases "m_dataType d") (simp_all add: getByteSize_def)

lemma isIgnored_simps [simp]:
  "isIgnored (setPosition p d) = isIgnored d"
  "isIgnored (setParent u d) = isIgnored d"
  "isIgnored (d\<lparr>m_byteOffset := off\<rparr>) = isIgnored d"
  "isIgnored (d\<lparr>m_position := p\<rparr>) = isIgnored d"
  "isIgnored (d\<lparr>m_parent := u\<rparr>) = isIgnored d"
  by (simp_all add: isIgnored_def setPosition_def setParent_def)

lemma getByteSize_simps [simp]:
  "getByteSize (setPosition p d) = getByteSize d"
  "getByteSize (setParent u d) = getByteSize d"
  "getByteSize (d\<lparr>m_byteOffset := off\<rparr>) = getByteSize d"
  "getByteSize (d\<lparr>m_position := p\<rparr>) = getByteSize d"
  "getByteSize (d\<lparr>m_parent := u\<rparr>) = getByteSize d"
  by (simp_all add: getByteSize_def setPosition_def setParent_def)

lemma packedByteSize_snoc:
  "packedByteSize (s @ [d]) = packedByteSize s + (if isIgnored d then 0 else getByteSize d)"
  by (simp add: packedByteSize_def)

text \<open>
  The loop of \<open>PackSchema\<close> appends to the schema under construction the non-ignored
  dimensions that are left, laid out from the current position and running size.
\<close>

lemma PackSchema_loop_layout:
  "PackSchema_loop xs p acc =
     acc @ layout_from (filter (\<lambda>d. \<not> isIgnored d) xs) p (packedByteSize acc)"
proof (induction xs arbitrary: p acc)
  case Nil
  then show ?case by simp
next
  case (Cons x xs)
  show ?case
  proof (cases "isIgnored x")
    case True
    then show ?thesis using Cons.IH by simp
  next
    case False
    then show ?thesis
      by (simp add: Cons.IH Let_def appendDimension_def packedByteSize_snoc
          setPosition_def setParent_def isIgnored_def getByteSize_def)
  qed
qed

lemma PackSchema_layout_from:
  "PackSchema s = layout_from (non_ignored s) 0 0"
  by (simp add: PackSchema_def PackSchema_loop_layout packedByteSize_def non_ignored_def)

lemma length_layout_from [simp]: "length (layout_from ds p off) = length ds"
  by (induction ds arbitrary: p off) simp_all

lemma nth_layout_from:
  "k < length ds \<Longrightarrow>
   layout_from ds p off ! k =
     (ds ! k)\<lparr>m_parent := nil_uuid, m_position := p + of_nat k,
              m_byteOffset := off + sum_list (map getByteSize (take k ds))\<rparr>"
proof (induction ds arbitrary: p off k)
  case Nil
  then show ?case by simp
next
  case (Cons d ds)
  show ?case
  proof (cases k)
    case 0
    then show ?thesis by simp
  next
    case (Suc j)
    with Cons.prems have "j < length ds" by simp
    from Cons.IH [OF this, of "p + 1" "off + getByteSize d"] Suc
    show ?thesis by (simp add: add.assoc)
  qed
qed

lemma getByteSize_layout_from:
  "map getByteSize (layout_from ds p off) = map getByteSize ds"
  by (induction ds arbitrary: p off) (simp_all add: getByteSize_def)

lemma filter_layout_from:
  "filter (\<lambda>d. \<not> isIgnored d) ds = ds \<Longrightarrow>
   filter (\<lambda>d. \<not> isIgnored d) (layout_from ds p off) = layout_from ds p off"
proof (induction ds arbitrary: p off)
  case Nil
  then show ?case by simp
next
  case (Cons d ds)
  from Cons.prems have d: "\<not> isIgnored d"
    by (metis filter_eq_Cons_iff list.inject)
  with Cons.prems have "filter (\<lambda>d. \<not> isIgnored d) ds = ds" by simp
  from Cons.IH [OF this] d show ?case by (simp add: isIgnored_def)
qed

lemma layout_from_idem:
  "layout_from (layout_from ds p off) p off = layout_from ds p off"
  by (induction ds arbitrary: p off) (simp_all add: getByteSize_def)

lemma non_ignored_PackSchema: "non_ignored (PackSchema s) = PackSchema s"
  unfolding PackSchema_layout_from
  by (subst (1) non_ignored_def) (rule filter_layout_from, simp add: non_ignored_def)

lemma sum_take_Suc:
  "j < length xs \<Longrightarrow>
   sum_list (map f (take (Suc j) xs)) = sum_list (map f (take j xs)) + (f (xs ! j) :: nat)"
  by (simp add: take_Suc_conv_app_nth)

lemma sum_take_mono:
  "j \<le> k \<Longrightarrow> sum_list (map f (take j xs)) \<le> (sum_list (map f (take k xs)) :: nat)"
proof -
  assume "j \<le> k"
  then have "take k xs = take j xs @ take (k - j) (drop j xs)"
    by (metis le_add_diff_inverse take_add)
  then show ?thesis by simp
qed

lemma schema_byte_size_loop_eq:
  "schema_byte_size_loop s acc = acc + of_nat (packedByteSize s)"
  by (induction s arbitrary: acc) (simp_all add: packedByteSize_def)

text \<open>
  C1.  Packing a schema keeps the non-ignored dimensions in schema order.  The one at
  index \<open>k\<close> among them gets position \<open>k\<close> (in the 32-bit counter of the loop) and, as
  its byte offset, the sum of the byte sizes of the non-ignored dimensions before it.  The
  byte size of the packed schema is the sum of the byte sizes of the non-ignored
  dimensions; so is the 32-bit \<^verbatim>\<open>schema_byte_size\<close> that \<open>PackPointData\<close> computes, in
  32-bit arithmetic, and exactly when the sum is below \<open>2^32\<close>.  The offsets are strictly
  increasing, and a dimension ends where or before the next one starts.
\<close>

theorem PackSchema_layout:
  "length (PackSchema S) = length (non_ignored S) \<and>
   (\<forall>k < length (non_ignored S).
      PackSchema S ! k =
        (non_ignored S ! k)\<lparr>m_parent := nil_uuid, m_position := of_nat k,
           m_byteOffset := sum_list (map getByteSize (take k (non_ignored S)))\<rparr>) \<and>
   rowByteSize (PackSchema S) = sum_list (map getByteSize (non_ignored S)) \<and>
   schema_byte_size_loop S 0 = of_nat (sum_list (map getByteSize (non_ignored S))) \<and>
   (sum_list (map getByteSize (non_ignored S)) < 2 ^ 32 \<longrightarrow>
      unat (schema_byte_size_loop S 0) = sum_list (map getByteSize (non_ignored S))) \<and>
   (\<forall>j k. j < k \<and> k < length (PackSchema S) \<longrightarrow>
      m_byteOffset (PackSchema S ! j) < m_byteOffset (PackSchema S ! k) \<and>
      m_byteOffset (PackSchema S ! j) + getByteSize (PackSchema S ! j)
        \<le> m_byteOffset (PackSchema S ! k))"
proof -
  let ?F = "non_ignored S"
  let ?P = "PackSchema S"
  have len: "length ?P = length ?F"
    by (simp add: PackSchema_layout_from)
  have nth: "?P ! k = (?F ! k)\<lparr>m_parent := nil_uuid, m_position := of_nat k,
           m_byteOffset := sum_list (map getByteSize (take k ?F))\<rparr>" if "k < length ?F" for k
    using nth_layout_from [OF that, of 0 0] by (simp add: PackSchema_layout_from)
  have total: "rowByteSize ?P = sum_list (map getByteSize ?F)"
    by (simp add: rowByteSize_def PackSchema_layout_from getByteSize_layout_from)
  have word: "schema_byte_size_loop S 0 = of_nat (sum_list (map getByteSize ?F))"
    by (simp add: schema_byte_size_loop_eq packedByteSize_def non_ignored_def)
  have fits: "unat (schema_byte_size_loop S 0) = sum_list (map getByteSize ?F)"
    if "sum_list (map getByteSize ?F) < 2 ^ 32"
    using that by (simp add: word unat_of_nat)
  have order: "m_byteOffset (?P ! j) < m_byteOffset (?P ! k) \<and>
      m_byteOffset (?P ! j) + getByteSize (?P ! j) \<le> m_byteOffset (?P ! k)"
    if "j < k" and "k < length ?P" for j k
  proof -
    from that len have j: "j < length ?F" and k: "k < length ?F" by simp_all
    have size: "getByteSize (?P ! j) = getByteSize (?F ! j)"
      by (simp add: nth [OF j] getByteSize_def)
    from that have "Suc j \<le> k" by simp
    then have "sum_list (map getByteSize (take (Suc j) ?F)) \<le> sum_list (map getByteSize (take k ?F))"
      by (rule sum_take_mono)
    then have "sum_list (map getByteSize (take j ?F)) + getByteSize (?F ! j)
        \<le> sum_list (map getByteSize (take k ?F))"
      by (simp only: sum_take_Suc [OF j])
    moreover have "0 < getByteSize (?F ! j)" by (rule getByteSize_pos)
    ultimately show ?thesis
      by (simp add: nth [OF j] nth [OF k] size)
  qed
  from len nth total word fits order show ?thesis by blast
qed

lemma non_ignored_scenario: "non_ignored scenario_schema = [dim_X, dim_Y]"
  by (simp add: non_ignored_def scenario_schema_def isIgnored_def dim_X_def dim_Y_def
      dim_Classification_def)

theorem PackSchema_layout_witness:
  "length (PackSchema scenario_schema) = 2 \<and>
   PackSchema scenario_schema ! 0 = dim_X\<lparr>m_parent := 0\<rparr> \<and>
   PackSchema scenario_schema ! 1 = dim_Y\<lparr>m_parent := 0, m_position := 1, m_byteOffset := 8\<rparr> \<and>
   rowByteSize (PackSchema scenario_schema) = 16 \<and>
   schema_byte_size_loop scenario_schema 0 = 16 \<and>
   unat (schema_byte_size_loop scenario_schema 0) = 16 \<and>
   m_byteOffset (PackSchema scenario_schema ! 0) < m_byteOffset (PackSchema scenario_schema ! 1) \<and>
   m_byteOffset (PackSchema scenario_schema ! 0) + getByteSize (PackSchema scenario_schema ! 0)
     \<le> m_byteOffset (PackSchema scenario_schema ! 1)"
proof -
  note inst = PackSchema_layout [of scenario_schema, unfolded non_ignored_scenario]
  note c1 = inst [THEN conjunct1]
  note c2 = inst [THEN conjunct2, THEN conjunct1]
  note c3 = inst [THEN conjunct2, THEN conjunct2, THEN conjunct1]
  note c4 = inst [THEN conjunct2, THEN conjunct2, THEN conjunct2, THEN conjunct1]
  note c5 = inst [THEN conjunct2, THEN conjunct2, THEN conjunct2, THEN conjunct2, THEN conjunct1]
  note c6 = inst [THEN conjunct2, THEN conjunct2, THEN conjunct2, THEN conjunct2, THEN conjunct2]
  have sizes: "getByteSize dim_X = 8" "getByteSize dim_Y = 8"
    by (simp_all add: getByteSize_def dim_X_def dim_Y_def)
  from c1 have len: "length (PackSchema scenario_schema) = 2" by simp
  from c2 have n0: "PackSchema scenario_schema ! 0 = dim_X\<lparr>m_parent := 0\<rparr>"
    by (simp add: nil_uuid_def dim_X_def)
  from c2 [THEN spec, of 1]
  have n1: "PackSchema scenario_schema ! 1 =
      dim_Y\<lparr>m_parent := 0, m_position := 1, m_byteOffset := 8\<rparr>"
    by (simp add: nil_uuid_def sizes)
  from c3 have total: "rowByteSize (PackSchema scenario_schema) = 16"
    by (simp add: sizes)
  from c4 have word: "schema_byte_size_loop scenario_schema 0 = 16"
    by (simp add: sizes)
  from c5 have fits: "unat (schema_byte_size_loop scenario_schema 0) = 16"
    by (simp add: sizes)
  from c6 [THEN spec, of 0, THEN spec, of 1] len have order:
     "m_byteOffset (PackSchema scenario_schema ! 0) < m_byteOffset (PackSchema scenario_schema ! 1) \<and>
      m_byteOffset (PackSchema scenario_schema ! 0) + getByteSize (PackSchema scenario_schema ! 0)
        \<le> m_byteOffset (PackSchema scenario_schema ! 1)" by simp
  from len n0 n1 total word fits order show ?thesis by simp
qed

text \<open>
  C5.  Packing is idempotent: packing a packed schema gives the same schema, so the two
  are equal under the schema equality; a packed schema has no ignored dimension.
\<close>

theorem PackSchema_idempotent:
  "PackSchema (PackSchema S) = PackSchema S \<and>
   schema_equal (PackSchema (PackSchema S)) (PackSchema S) \<and>
   non_ignored (PackSchema S) = PackSchema S"
proof -
  have "PackSchema (PackSchema S) = PackSchema S"
    by (simp only: PackSchema_layout_from [of "PackSchema S"] non_ignored_PackSchema)
       (simp add: PackSchema_layout_from layout_from_idem)
  then show ?thesis
    by (simp add: schema_equal_def non_ignored_PackSchema)
qed

section \<open>Packing point data\<close>

lemma packed_row_Nil [simp]: "packed_row [] row = []"
  by (simp add: packed_row_def)














section \<open>The transaction bracket and writing a block\<close>

lemma quiet_iff:
  "quiet w w' \<longleftrightarrow>
     (\<exists>new. statements (m_session w') = statements (m_session w) @ new \<and>
        tx_rollback \<notin> set new \<and> tx_commit \<notin> set new)"
  by (auto simp: quiet_def sent_since_def)

lemma quiet_refl [simp]: "quiet w w"
  by (simp add: quiet_iff)


























section \<open>Registering the schema\<close>



lemma formats_query [simp]: "formats (query sql w) = formats w"
  by (simp add: formats_def query_def)

lemma m_fields_query [simp]:
  "m_pcid (query sql w) = m_pcid w"
  "m_patch_compression_type (query sql w) = m_patch_compression_type w"
  by (simp_all add: query_def)





lemma db_query [simp]: "db (m_session (query sql w)) = db (m_session w)"
  by (simp add: query_def)











section \<open>Initialisation and options\<close>













end
